theory Spec2Isabelle
  imports Complex_Main "HOL-Library.AList"
begin

section \<open>JavaScript values and the response envelope\<close>

text \<open>
  The two serverless functions (\<^verbatim>\<open>netlify/functions/imf-api.js\<close> and the World Bank proxy)
  are embedded as functions on JavaScript values. Numbers are kept abstract (type \<open>'n\<close>):
  the handlers never calculate with them. Strings are \<open>string\<close>, one \<open>char\<close> per code unit,
  so the strings covered are those of code units below 256. An object is the list of its
  own properties, each name once, in the order they were added; the order in which
  JavaScript enumerates them (index-like names first) is not part of the model, and a
  property is read with \<open>map_of\<close>.
\<close>

datatype 'n jsval =
    Undefined
  | Null
  | Bool bool
  | Num 'n
  | Str string
  | Arr "'n jsval list"
  | Obj "(string \<times> 'n jsval) list"

text \<open>
  A response body is either a string literal of the source (\<^verbatim>\<open>body: ''\<close>) or
  \<^verbatim>\<open>JSON.stringify(v)\<close>; the serialisation itself is a library function and is kept
  symbolic, \<open>JSON_stringify v\<close> standing for the text it produces from \<open>v\<close>.
\<close>

datatype 'n body = Literal string | JSON_stringify "'n jsval"

record 'n response =
  statusCode :: nat
  headers :: "(string \<times> string) list"
  body :: "'n body"

text \<open>The inbound event: method and query string parameters (\<open>None\<close> is null/undefined).\<close>

record event =
  httpMethod :: string
  queryStringParameters :: "(string \<times> string) list option"

text \<open>\<^verbatim>\<open>const headers = { ... }\<close>, the same literal in both handlers.\<close>

definition cors_headers :: "(string \<times> string) list" where
  "cors_headers =
     [(''Access-Control-Allow-Origin'', ''*''),
      (''Access-Control-Allow-Headers'', ''Content-Type''),
      (''Access-Control-Allow-Methods'', ''GET, OPTIONS''),
      (''Content-Type'', ''application/json'')]"

text \<open>
  \<^verbatim>\<open>const { indicator, ... } = event.queryStringParameters || {}\<close>: reading one name
  from the parameter object, or from the empty object when there is none.
  \<open>None\<close> is \<^verbatim>\<open>undefined\<close>.
\<close>

definition param :: "event \<Rightarrow> string \<Rightarrow> string option" where
  "param ev k = (case queryStringParameters ev of None \<Rightarrow> None | Some ps \<Rightarrow> map_of ps k)"

text \<open>\<^verbatim>\<open>!x\<close> for a value that is a string or undefined.\<close>

definition falsy :: "string option \<Rightarrow> bool" where
  "falsy x = (case x of None \<Rightarrow> True | Some s \<Rightarrow> s = [])"

text \<open>The value of a parameter that passed the check.\<close>

definition str_of :: "string option \<Rightarrow> string" where
  "str_of x = (case x of None \<Rightarrow> ''undefined'' | Some s \<Rightarrow> s)"

text \<open>Decimal rendering of a non-negative integer (a status code in a template literal).\<close>

definition digit_char :: "nat \<Rightarrow> char" where
  "digit_char d = ''0123456789'' ! d"

fun show_nat :: "nat \<Rightarrow> string" where
  "show_nat n = (if n < 10 then [digit_char n] else show_nat (n div 10) @ [digit_char (n mod 10)])"

declare show_nat.simps [simp del]

abbreviation method_not_allowed :: "'n response" where
  "method_not_allowed \<equiv>
     \<lparr>statusCode = 405, headers = cors_headers,
      body = JSON_stringify (Obj [(''error'', Str ''Method not allowed'')])\<rparr>"

abbreviation preflight_ok :: "'n response" where
  "preflight_ok \<equiv> \<lparr>statusCode = 200, headers = cors_headers, body = Literal ''''\<rparr>"

abbreviation missing_parameters :: "'n response" where
  "missing_parameters \<equiv>
     \<lparr>statusCode = 400, headers = cors_headers,
      body = JSON_stringify (Obj [(''error'',
        Str ''Missing required parameters: indicator, country, startYear, endYear'')])\<rparr>"

section \<open>The IMF proxy\<close>

text \<open>
  \<^verbatim>\<open>fetch(url, {headers})\<close> is the environment: it either rejects (with an error whose
  message is given) or resolves to a response. Of a response the handler reads
  \<^verbatim>\<open>status\<close>, \<^verbatim>\<open>statusText\<close>, \<^verbatim>\<open>ok\<close> and one of \<^verbatim>\<open>text()\<close>
  and \<^verbatim>\<open>json()\<close>, each of which may reject too (\<open>Inl\<close> of the message).
\<close>

record imf_request =
  url :: string
  fetch_headers :: "(string \<times> string) list"

record 'n fetch_response =
  status :: nat
  statusText :: string
  text_result :: "string + string"
  json_result :: "string + 'n jsval"

datatype 'n fetch_result = Rejected string | Resolved "'n fetch_response"

definition ok :: "'n fetch_response \<Rightarrow> bool" where
  "ok r = (200 \<le> status r \<and> status r \<le> 299)"

text \<open>The \<^verbatim>\<open>catch (error)\<close> branch of the IMF handler, from \<^verbatim>\<open>error.message\<close>.\<close>

definition imf_catch :: "string \<Rightarrow> 'n response" where
  "imf_catch msg =
     \<lparr>statusCode = 500, headers = cors_headers,
      body = JSON_stringify (Obj [(''error'', Str ''Failed to fetch data from IMF API''),
                                  (''message'', Str msg)])\<rparr>"

definition imfApiUrl :: "string \<Rightarrow> string \<Rightarrow> string \<Rightarrow> string \<Rightarrow> string" where
  "imfApiUrl indicator country startYear endYear =
     ''https://www.imf.org/external/datamapper/api/v1/'' @ indicator @ ''/'' @ country
       @ ''?periods='' @ startYear @ ''-'' @ endYear"

definition imf_request_of :: "event \<Rightarrow> imf_request" where
  "imf_request_of ev =
     \<lparr>url = imfApiUrl (str_of (param ev ''indicator'')) (str_of (param ev ''country''))
              (str_of (param ev ''startYear'')) (str_of (param ev ''endYear'')),
      fetch_headers = [(''Accept'', ''application/json''),
                       (''User-Agent'', ''Mozilla/5.0 (compatible; IMF-Dashboard/1.0)'')]\<rparr>"

text \<open>
  The handler returns its response together with the list of outbound calls it made.
  Logging (\<^verbatim>\<open>console.log\<close>, \<^verbatim>\<open>console.error\<close>) is left out.
\<close>

definition imf_handler ::
  "(imf_request \<Rightarrow> 'n fetch_result) \<Rightarrow> event \<Rightarrow> 'n response \<times> imf_request list" where
  "imf_handler fetch ev =
     (if httpMethod ev = ''OPTIONS'' then (preflight_ok, [])
      else if httpMethod ev \<noteq> ''GET'' then (method_not_allowed, [])
      else if falsy (param ev ''indicator'') \<or> falsy (param ev ''country'')
              \<or> falsy (param ev ''startYear'') \<or> falsy (param ev ''endYear'')
      then (missing_parameters, [])
      else
        (let req = imf_request_of ev in
         case fetch req of
           Rejected msg \<Rightarrow> (imf_catch msg, [req])
         | Resolved r \<Rightarrow>
             if \<not> ok r then
               (case text_result r of
                  Inl msg \<Rightarrow> (imf_catch msg, [req])
                | Inr errorText \<Rightarrow>
                    (imf_catch (''IMF API error: '' @ show_nat (status r) @ '' '' @ statusText r
                                 @ ''. '' @ take 200 errorText), [req]))
             else
               (case json_result r of
                  Inl msg \<Rightarrow> (imf_catch msg, [req])
                | Inr data \<Rightarrow>
                    (\<lparr>statusCode = 200, headers = cors_headers, body = JSON_stringify data\<rparr>,
                     [req]))))"

section \<open>The World Bank proxy: the runtime it relies on\<close>

text \<open>
  What the handler takes from the JavaScript runtime and does not define itself:
  \<^verbatim>\<open>JSON.parse\<close> (\<open>Inl\<close> is the message of the SyntaxError it throws),
  \<^verbatim>\<open>new URL\<close> (\<open>Inl\<close> is the error it throws), the truth value and the string form of a
  Number, the property key of an integer beyond \<open>2^53\<close> (where Numbers round), the message
  the engine gives a TypeError, and the string form of a member of \<^verbatim>\<open>Object.prototype\<close>.
\<close>

datatype type_error = NullProperty | NotAFunction | NotPrimitive

datatype exn = Error string | TypeError type_error

record js_error =
  message :: string
  code :: "string option"
  stack :: string

record parsed_url =
  hostname :: string
  pathname :: string
  search :: string

record 'n runtime =
  json_parse :: "string \<Rightarrow> string + 'n jsval"
  new_URL :: "string \<Rightarrow> js_error + parsed_url"
  num_truthy :: "'n \<Rightarrow> bool"
  num_to_string :: "'n \<Rightarrow> string"
  big_key :: "int \<Rightarrow> string"
  engine_msg :: "type_error \<Rightarrow> string"
  proto_string :: "string \<Rightarrow> string"

text \<open>\<^verbatim>\<open>parseError.message\<close> of an exception raised inside the \<^verbatim>\<open>end\<close> callback.\<close>

definition exn_message :: "('n, 'x) runtime_scheme \<Rightarrow> exn \<Rightarrow> string" where
  "exn_message rt e = (case e of Error m \<Rightarrow> m | TypeError t \<Rightarrow> engine_msg rt t)"

text \<open>ToBoolean.\<close>

definition truthy :: "('n, 'x) runtime_scheme \<Rightarrow> 'n jsval \<Rightarrow> bool" where
  "truthy rt v =
     (case v of Undefined \<Rightarrow> False | Null \<Rightarrow> False | Bool b \<Rightarrow> b | Num n \<Rightarrow> num_truthy rt n
      | Str s \<Rightarrow> s \<noteq> [] | Arr xs \<Rightarrow> True | Obj ps \<Rightarrow> True)"

text \<open>
  \<^verbatim>\<open>item.date\<close>, \<^verbatim>\<open>item.value\<close>: reading a property that no prototype defines.
  On null and undefined it throws; on an object it is the own property or undefined; on
  every other value it is undefined.
\<close>

definition get_prop :: "'n jsval \<Rightarrow> string \<Rightarrow> type_error + 'n jsval" where
  "get_prop v k =
     (case v of
        Undefined \<Rightarrow> Inl NullProperty
      | Null \<Rightarrow> Inl NullProperty
      | Obj ps \<Rightarrow> (case map_of ps k of None \<Rightarrow> Inr Undefined | Some x \<Rightarrow> Inr x)
      | _ \<Rightarrow> Inr Undefined)"

text \<open>
  ToString, as \<^verbatim>\<open>parseInt\<close> applies it to its argument. An array is joined with commas,
  null and undefined elements giving the empty string. A plain object is
  \<^verbatim>\<open>[object Object]\<close>, unless it has an own property \<^verbatim>\<open>toString\<close>: a decoded JSON value
  is never callable, so the conversion finds no method and throws.
\<close>

fun to_string :: "('n \<Rightarrow> string) \<Rightarrow> 'n jsval \<Rightarrow> type_error + string"
  and join :: "('n \<Rightarrow> string) \<Rightarrow> 'n jsval list \<Rightarrow> type_error + string"
  and element :: "('n \<Rightarrow> string) \<Rightarrow> 'n jsval \<Rightarrow> type_error + string" where
  "to_string ns Undefined = Inr ''undefined''"
| "to_string ns Null = Inr ''null''"
| "to_string ns (Bool b) = Inr (if b then ''true'' else ''false'')"
| "to_string ns (Num n) = Inr (ns n)"
| "to_string ns (Str s) = Inr s"
| "to_string ns (Arr xs) = join ns xs"
| "to_string ns (Obj ps) =
     (if ''toString'' \<in> fst ` set ps then Inl NotPrimitive else Inr ''[object Object]'')"
| "join ns [] = Inr []"
| "join ns (x # xs) =
     (case element ns x of
        Inl e \<Rightarrow> Inl e
      | Inr s \<Rightarrow>
          (if xs = [] then Inr s
           else case join ns xs of Inl e \<Rightarrow> Inl e | Inr t \<Rightarrow> Inr (s @ '','' @ t)))"
| "element ns Undefined = Inr []"
| "element ns Null = Inr []"
| "element ns (Bool b) = to_string ns (Bool b)"
| "element ns (Num n) = to_string ns (Num n)"
| "element ns (Str s) = to_string ns (Str s)"
| "element ns (Arr xs) = to_string ns (Arr xs)"
| "element ns (Obj ps) = to_string ns (Obj ps)"

text \<open>
  \<^verbatim>\<open>parseInt(string)\<close> with no radix: leading white space is dropped, then a sign, then
  \<^verbatim>\<open>0x\<close> or \<^verbatim>\<open>0X\<close> selects radix 16; the longest prefix of digits is read, and with no
  digit the result is NaN (\<open>None\<close>). The result is the mathematical integer.
\<close>

definition is_ws :: "char \<Rightarrow> bool" where
  "is_ws c = (of_char c \<in> {9, 10, 11, 12, 13, 32, 160 :: nat})"

definition digit_val :: "nat \<Rightarrow> char \<Rightarrow> nat option" where
  "digit_val radix c =
     (case map_of (zip ''0123456789abcdefghijklmnopqrstuvwxyz'' [0..<36]) c of
        Some d \<Rightarrow> if d < radix then Some d else None
      | None \<Rightarrow>
          (case map_of (zip ''ABCDEFGHIJKLMNOPQRSTUVWXYZ'' [10..<36]) c of
             Some d \<Rightarrow> if d < radix then Some d else None
           | None \<Rightarrow> None))"

definition digits_value :: "nat \<Rightarrow> string \<Rightarrow> nat" where
  "digits_value radix z = foldl (\<lambda>acc c. acc * radix + (case digit_val radix c of Some d \<Rightarrow> d | None \<Rightarrow> 0)) 0 z"

definition parseInt :: "string \<Rightarrow> int option" where
  "parseInt inputString =
     (let s = dropWhile is_ws inputString;
          neg = (s \<noteq> [] \<and> hd s = CHR ''-'');
          s = (if s \<noteq> [] \<and> (hd s = CHR ''+'' \<or> hd s = CHR ''-'') then tl s else s);
          hex = (take 2 s = ''0x'' \<or> take 2 s = ''0X'');
          radix = (if hex then 16 else 10);
          s = (if hex then drop 2 s else s);
          z = takeWhile (\<lambda>c. digit_val radix c \<noteq> None) s
      in if z = [] then None
         else Some ((if neg then - 1 else 1) * int (digits_value radix z)))"

text \<open>
  The property key of \<^verbatim>\<open>values[year]\<close>: the string form of the Number. Up to \<open>2^53\<close> the
  integer is a Number exactly and its string form is its decimal numeral; beyond, the
  runtime decides.
\<close>

definition year_key :: "('n, 'x) runtime_scheme \<Rightarrow> int option \<Rightarrow> string" where
  "year_key rt year =
     (case year of
        None \<Rightarrow> ''NaN''
      | Some k \<Rightarrow>
          if \<bar>k\<bar> \<le> 2 ^ 53 then (if k < 0 then ''-'' else []) @ show_nat (nat \<bar>k\<bar>)
          else big_key rt k)"

section \<open>The World Bank proxy: parsing the upstream payload\<close>

text \<open>
  The callback of \<^verbatim>\<open>dataArray.forEach\<close>, on the properties collected so far:
  \<^verbatim>\<open>if (item.date && item.value !== null) { values[parseInt(item.date)] = item.value }\<close>.
  Assigning a property replaces the value of a key that is there and appends a new key
  otherwise, which is \<open>AList.update\<close>.
\<close>

definition record_item ::
  "('n, 'x) runtime_scheme \<Rightarrow> (string \<times> 'n jsval) list \<Rightarrow> 'n jsval
     \<Rightarrow> type_error + (string \<times> 'n jsval) list" where
  "record_item rt vals item =
     (case get_prop item ''date'' of
        Inl e \<Rightarrow> Inl e
      | Inr d \<Rightarrow>
          if \<not> truthy rt d then Inr vals
          else
            (case get_prop item ''value'' of
               Inl e \<Rightarrow> Inl e
             | Inr v \<Rightarrow>
                 if v = Null then Inr vals
                 else
                   (case to_string (num_to_string rt) d of
                      Inl e \<Rightarrow> Inl e
                    | Inr s \<Rightarrow> Inr (AList.update (year_key rt (parseInt s)) v vals))))"

fun forEach ::
  "('n, 'x) runtime_scheme \<Rightarrow> (string \<times> 'n jsval) list \<Rightarrow> 'n jsval list
     \<Rightarrow> type_error + (string \<times> 'n jsval) list" where
  "forEach rt vals [] = Inr vals"
| "forEach rt vals (item # items) =
     (case record_item rt vals item of
        Inl e \<Rightarrow> Inl e
      | Inr vals' \<Rightarrow> forEach rt vals' items)"

text \<open>
  The \<^verbatim>\<open>try\<close> block of the \<^verbatim>\<open>end\<close> callback after \<^verbatim>\<open>JSON.parse\<close>: the shape check,
  \<^verbatim>\<open>jsonData[1] || []\<close>, and the loop. It gives \<^verbatim>\<open>transformedData\<close> or the exception
  thrown. \<^verbatim>\<open>forEach\<close> is a function only on an array.
\<close>

definition isArray :: "'n jsval \<Rightarrow> bool" where
  "isArray v = (case v of Arr xs \<Rightarrow> True | _ \<Rightarrow> False)"

definition elements :: "'n jsval \<Rightarrow> 'n jsval list" where
  "elements v = (case v of Arr xs \<Rightarrow> xs | _ \<Rightarrow> [])"

definition transform :: "('n, 'x) runtime_scheme \<Rightarrow> 'n jsval \<Rightarrow> exn + 'n jsval" where
  "transform rt jsonData =
     (if \<not> isArray jsonData \<or> length (elements jsonData) < 2
      then Inl (Error ''Invalid World Bank API response format'')
      else
        (let dataArray = (if truthy rt (elements jsonData ! 1) then elements jsonData ! 1
                          else Arr [])
         in if \<not> isArray dataArray then Inl (TypeError NotAFunction)
            else
              (case forEach rt [] (elements dataArray) of
                 Inl e \<Rightarrow> Inl (TypeError e)
               | Inr vals \<Rightarrow> Inr (Obj [(''values'', Obj vals)]))))"

text \<open>The \<^verbatim>\<open>catch (parseError)\<close> branch.\<close>

definition parse_failure :: "string \<Rightarrow> string \<Rightarrow> 'n response" where
  "parse_failure msg data =
     \<lparr>statusCode = 500, headers = cors_headers,
      body = JSON_stringify (Obj [(''error'', Str ''Failed to parse World Bank API response''),
                                  (''message'', Str msg),
                                  (''rawData'', Str (take 500 data))])\<rparr>"

text \<open>
  The \<^verbatim>\<open>end\<close> callback: the response it resolves, from the status line and the body
  collected.
\<close>

definition on_end :: "('n, 'x) runtime_scheme \<Rightarrow> nat \<Rightarrow> string \<Rightarrow> string \<Rightarrow> 'n response" where
  "on_end rt res_statusCode res_statusMessage data =
     (if res_statusCode \<noteq> 200 then
        \<lparr>statusCode = 500, headers = cors_headers,
         body = JSON_stringify (Obj [(''error'', Str ''World Bank API error''),
                  (''message'', Str (''HTTP '' @ show_nat res_statusCode @ '': '' @ res_statusMessage)),
                  (''details'', Str (take 200 data))])\<rparr>
      else
        (case json_parse rt data of
           Inl msg \<Rightarrow> parse_failure msg data
         | Inr jsonData \<Rightarrow>
             (case transform rt jsonData of
                Inl e \<Rightarrow> parse_failure (exn_message rt e) data
              | Inr transformedData \<Rightarrow>
                  \<lparr>statusCode = 200, headers = cors_headers,
                   body = JSON_stringify transformedData\<rparr>)))"

section \<open>The World Bank proxy: code translation and the outbound request\<close>

definition indicatorMap :: "(string \<times> string) list" where
  "indicatorMap =
     [(''NGDP_RPCH'', ''NY.GDP.MKTP.KD.ZG''),
      (''PCPIPCH'', ''FP.CPI.TOTL.ZG''),
      (''LUR'', ''SL.UEM.TOTL.ZS''),
      (''NGDPD'', ''NY.GDP.MKTP.CD''),
      (''GDP_PCAP'', ''NY.GDP.PCAP.CD''),
      (''BCA'', ''BN.CAB.XOKA.GD.ZS'')]"

definition countryMap :: "(string \<times> string) list" where
  "countryMap =
     [(''US'', ''USA''), (''CN'', ''CHN''), (''JP'', ''JPN''), (''DE'', ''DEU''),
      (''GB'', ''GBR''), (''FR'', ''FRA''), (''KR'', ''KOR''), (''IN'', ''IND''),
      (''BR'', ''BRA''), (''RU'', ''RUS''), (''CZ'', ''CZE''), (''SK'', ''SVK'')]"

text \<open>
  Both tables are object literals, so \<^verbatim>\<open>indicatorMap[indicator]\<close> with a name the
  table does not have goes on to \<^verbatim>\<open>Object.prototype\<close>. These are the names defined
  there; each holds a function, and \<^verbatim>\<open>__proto__\<close> the prototype object itself.
\<close>

definition object_prototype_names :: "string list" where
  "object_prototype_names =
     [''constructor'', ''__defineGetter__'', ''__defineSetter__'', ''hasOwnProperty'',
      ''__lookupGetter__'', ''__lookupSetter__'', ''isPrototypeOf'', ''propertyIsEnumerable'',
      ''toString'', ''valueOf'', ''__proto__'', ''toLocaleString'']"

text \<open>
  What a translated code can be: a string, or the member of \<^verbatim>\<open>Object.prototype\<close> of
  that name.
\<close>

datatype code_value = Code string | Member string

text \<open>\<^verbatim>\<open>table[key]\<close>; \<open>None\<close> is undefined.\<close>

definition table_get :: "(string \<times> string) list \<Rightarrow> string \<Rightarrow> code_value option" where
  "table_get table key =
     (case map_of table key of
        Some v \<Rightarrow> Some (Code v)
      | None \<Rightarrow> if key \<in> set object_prototype_names then Some (Member key) else None)"

text \<open>\<^verbatim>\<open>table[key] || key\<close>: functions and objects are truthy, a string unless empty.\<close>

definition translate :: "(string \<times> string) list \<Rightarrow> string \<Rightarrow> code_value" where
  "translate table key =
     (case table_get table key of
        None \<Rightarrow> Code key
      | Some (Code v) \<Rightarrow> if v \<noteq> [] then Code v else Code key
      | Some (Member m) \<Rightarrow> Member m)"

text \<open>A translated code inside the template literal.\<close>

definition interpolate :: "('n, 'x) runtime_scheme \<Rightarrow> code_value \<Rightarrow> string" where
  "interpolate rt v = (case v of Code s \<Rightarrow> s | Member m \<Rightarrow> proto_string rt m)"

definition wbApiUrl ::
  "('n, 'x) runtime_scheme \<Rightarrow> string \<Rightarrow> string \<Rightarrow> string \<Rightarrow> string \<Rightarrow> string" where
  "wbApiUrl rt indicator country startYear endYear =
     ''https://api.worldbank.org/v2/country/'' @ interpolate rt (translate countryMap country)
       @ ''/indicator/'' @ interpolate rt (translate indicatorMap indicator)
       @ ''?format=json&date='' @ startYear @ '':'' @ endYear"

record wb_request =
  req_hostname :: string
  req_path :: string
  req_method :: string
  req_headers :: "(string \<times> string) list"
  req_timeout :: nat

definition options :: "parsed_url \<Rightarrow> wb_request" where
  "options u =
     \<lparr>req_hostname = hostname u,
      req_path = pathname u @ search u,
      req_method = ''GET'',
      req_headers = [(''Accept'', ''application/json''),
                     (''User-Agent'', ''World-Bank-Economic-Dashboard/1.0'')],
      req_timeout = 30000\<rparr>"

section \<open>The World Bank proxy: the handler and its callbacks\<close>

text \<open>
  The handler returns a promise and settles it from callbacks. Its state: the value the
  promise is settled with (\<^verbatim>\<open>resolve\<close> has an effect only the first time), the requests
  sent, whether \<^verbatim>\<open>req.destroy()\<close> was called, and, once the response callback has run,
  the status line with the \<^verbatim>\<open>data\<close> collected so far.
\<close>

record 'n wb_state =
  settled :: "'n response option"
  requests :: "wb_request list"
  destroyed :: bool
  incoming :: "(nat \<times> string \<times> string) option"

definition resolve :: "'n response \<Rightarrow> 'n wb_state \<Rightarrow> 'n wb_state" where
  "resolve r st = (if settled st = None then st\<lparr>settled := Some r\<rparr> else st)"

abbreviation pending :: "'n wb_state" where
  "pending \<equiv> \<lparr>settled = None, requests = [], destroyed = False, incoming = None\<rparr>"

text \<open>
  The outer \<^verbatim>\<open>catch (error)\<close>, the \<^verbatim>\<open>error\<close> listener and the \<^verbatim>\<open>timeout\<close>
  listener. An \<^verbatim>\<open>error.code\<close> that is not there is undefined.
\<close>

definition proxy_error :: "js_error \<Rightarrow> 'n response" where
  "proxy_error e =
     \<lparr>statusCode = 500, headers = cors_headers,
      body = JSON_stringify (Obj [(''error'', Str ''Failed to fetch data from World Bank API''),
                                  (''message'', Str (message e)),
                                  (''stack'', Str (stack e))])\<rparr>"

definition request_error :: "js_error \<Rightarrow> 'n response" where
  "request_error e =
     \<lparr>statusCode = 500, headers = cors_headers,
      body = JSON_stringify (Obj [(''error'', Str ''Failed to fetch data from World Bank API''),
                                  (''message'', Str (message e)),
                                  (''code'', case code e of None \<Rightarrow> Undefined | Some c \<Rightarrow> Str c)])\<rparr>"

abbreviation request_timeout :: "'n response" where
  "request_timeout \<equiv>
     \<lparr>statusCode = 500, headers = cors_headers,
      body = JSON_stringify (Obj [(''error'', Str ''World Bank API request timeout''),
                                  (''message'', Str ''Request took longer than 30 seconds'')])\<rparr>"

text \<open>
  The synchronous part of the handler: up to \<^verbatim>\<open>req.end()\<close>, or up to the response it
  returns at once. Inside the outer \<^verbatim>\<open>try\<close> it is \<^verbatim>\<open>new URL\<close> whose failure is
  modelled; logging is left out.
\<close>

definition wb_handler :: "('n, 'x) runtime_scheme \<Rightarrow> event \<Rightarrow> 'n wb_state" where
  "wb_handler rt ev =
     (if httpMethod ev = ''OPTIONS'' then resolve preflight_ok pending
      else if httpMethod ev \<noteq> ''GET'' then resolve method_not_allowed pending
      else if falsy (param ev ''indicator'') \<or> falsy (param ev ''country'')
              \<or> falsy (param ev ''startYear'') \<or> falsy (param ev ''endYear'')
      then resolve missing_parameters pending
      else
        (case new_URL rt (wbApiUrl rt (str_of (param ev ''indicator''))
                            (str_of (param ev ''country'')) (str_of (param ev ''startYear''))
                            (str_of (param ev ''endYear''))) of
           Inl e \<Rightarrow> resolve (proxy_error e) pending
         | Inr u \<Rightarrow> pending\<lparr>requests := [options u]\<rparr>))"

text \<open>
  What the runtime can deliver afterwards: the response head (the callback of
  \<^verbatim>\<open>https.request\<close>), a chunk, the end of the response, an error of the request, the
  timeout. Listeners exist only when a request was made, and the \<^verbatim>\<open>data\<close> and
  \<^verbatim>\<open>end\<close> listeners only once the response callback has run.
\<close>

datatype upstream_event =
    ResponseHead nat string
  | Data string
  | End
  | RequestError js_error
  | Timeout

definition deliver :: "('n, 'x) runtime_scheme \<Rightarrow> 'n wb_state \<Rightarrow> upstream_event \<Rightarrow> 'n wb_state" where
  "deliver rt st e =
     (if requests st = [] then st
      else
        (case e of
           ResponseHead sc sm \<Rightarrow> st\<lparr>incoming := Some (sc, sm, [])\<rparr>
         | Data chunk \<Rightarrow>
             (case incoming st of
                None \<Rightarrow> st
              | Some (sc, sm, data) \<Rightarrow> st\<lparr>incoming := Some (sc, sm, data @ chunk)\<rparr>)
         | End \<Rightarrow>
             (case incoming st of
                None \<Rightarrow> st
              | Some (sc, sm, data) \<Rightarrow> resolve (on_end rt sc sm data) st)
         | RequestError err \<Rightarrow> resolve (request_error err) st
         | Timeout \<Rightarrow> resolve request_timeout (st\<lparr>destroyed := True\<rparr>)))"

definition run :: "('n, 'x) runtime_scheme \<Rightarrow> event \<Rightarrow> upstream_event list \<Rightarrow> 'n wb_state" where
  "run rt ev es = foldl (deliver rt) (wb_handler rt ev) es"

section \<open>The specification's reading of the payload\<close>

text \<open>
  The entry one observation contributes to the series, read off the specification: an
  observation with a date and a value other than null gives the pair of the year's key
  and the value; any other observation gives nothing. "With a date" is the truth test of
  the source: an absent, null or empty date does not count.
\<close>

definition spec_observation ::
  "('n, 'x) runtime_scheme \<Rightarrow> 'n jsval \<Rightarrow> (string \<times> 'n jsval) option" where
  "spec_observation rt item =
     (case (get_prop item ''date'', get_prop item ''value'') of
        (Inr d, Inr v) \<Rightarrow>
          if truthy rt d \<and> v \<noteq> Null then
            (case to_string (num_to_string rt) d of
               Inr s \<Rightarrow> Some (year_key rt (parseInt s), v)
             | Inl e \<Rightarrow> None)
          else None
      | _ \<Rightarrow> None)"

text \<open>
  The observations on which the loop throws: null (or undefined) in place of an
  observation, and a date to record that has no string form.
\<close>

definition throws :: "('n, 'x) runtime_scheme \<Rightarrow> 'n jsval \<Rightarrow> bool" where
  "throws rt item =
     (case get_prop item ''date'' of
        Inl e \<Rightarrow> True
      | Inr d \<Rightarrow>
          truthy rt d \<and> get_prop item ''value'' \<noteq> Inr Null
            \<and> isl (to_string (num_to_string rt) d))"

text \<open>
  The series the specification describes: the entries of the observations in order, a
  later entry replacing the value of a year already there.
\<close>

definition spec_series :: "('n, 'x) runtime_scheme \<Rightarrow> 'n jsval list \<Rightarrow> (string \<times> 'n jsval) list" where
  "spec_series rt items =
     fold (\<lambda>(k, v) vals. AList.update k v vals) (List.map_filter (spec_observation rt) items) []"

section \<open>Concrete inputs\<close>

text \<open>
  A runtime for the examples. Its \<^verbatim>\<open>JSON.parse\<close> knows one text and the value it
  decodes to; its \<^verbatim>\<open>new URL\<close> splits the address after the host at the question mark;
  its Numbers are rationals.
\<close>

definition sample_runtime :: "string \<Rightarrow> rat jsval \<Rightarrow> rat runtime" where
  "sample_runtime text payload =
     \<lparr>json_parse = (\<lambda>data. if data = text then Inr payload else Inl ''Unexpected token''),
      new_URL = (\<lambda>s. Inr \<lparr>hostname = ''api.worldbank.org'',
                           pathname = takeWhile (\<lambda>c. c \<noteq> CHR ''?'') (drop 25 s),
                           search = dropWhile (\<lambda>c. c \<noteq> CHR ''?'') (drop 25 s)\<rparr>),
      num_truthy = (\<lambda>q. q \<noteq> 0),
      num_to_string = (\<lambda>q. (if q < 0 then ''-'' else []) @ show_nat (nat \<bar>\<lfloor>q\<rfloor>\<bar>)),
      big_key = (\<lambda>k. ''Infinity''),
      engine_msg = (\<lambda>t. case t of
                        NullProperty \<Rightarrow> ''Cannot read properties of null''
                      | NotAFunction \<Rightarrow> ''dataArray.forEach is not a function''
                      | NotPrimitive \<Rightarrow> ''Cannot convert object to primitive value''),
      proto_string = (\<lambda>m. if m = ''__proto__'' then ''[object Object]''
                           else ''function '' @ m @ ''() { [native code] }'')\<rparr>"

definition sample_event :: event where
  "sample_event =
     \<lparr>httpMethod = ''GET'',
      queryStringParameters = Some [(''indicator'', ''NGDP_RPCH''), (''country'', ''KR''),
                                    (''startYear'', ''2020''), (''endYear'', ''2022'')]\<rparr>"

definition sample_payload :: "rat jsval" where
  "sample_payload =
     Arr [Obj [(''page'', Num 1)],
          Arr [Obj [(''date'', Str ''2020''), (''value'', Num (51 / 10))],
               Obj [(''date'', Str ''2021''), (''value'', Null)],
               Obj [(''date'', Str ''2022''), (''value'', Num 3)]]]"

section \<open>Invariants stated on the state\<close>

text \<open>A settled promise holds a response with the CORS headers.\<close>

definition cors_only :: "'n wb_state \<Rightarrow> bool" where
  "cors_only st = (case settled st of None \<Rightarrow> True | Some r \<Rightarrow> headers r = cors_headers)"

section \<open>Method dispatch and parameter validation\<close>

lemma foldl_deliver_idle: "requests st = [] \<Longrightarrow> foldl (deliver rt) st es = st"
  by (induction es) (simp_all add: deliver_def)

lemma run_without_request: "requests (wb_handler rt ev) = [] \<Longrightarrow> run rt ev es = wb_handler rt ev"
  by (simp add: run_def foldl_deliver_idle)

lemma wb_preflight: "httpMethod ev = ''OPTIONS'' \<Longrightarrow> wb_handler rt ev = resolve preflight_ok pending"
  by (simp add: wb_handler_def)

lemma wb_other_method:
  "httpMethod ev \<noteq> ''OPTIONS'' \<Longrightarrow> httpMethod ev \<noteq> ''GET''
     \<Longrightarrow> wb_handler rt ev = resolve method_not_allowed pending"
  by (simp add: wb_handler_def)

lemma wb_missing:
  "httpMethod ev = ''GET'' \<Longrightarrow>
   falsy (param ev ''indicator'') \<or> falsy (param ev ''country'')
     \<or> falsy (param ev ''startYear'') \<or> falsy (param ev ''endYear'')
   \<Longrightarrow> wb_handler rt ev = resolve missing_parameters pending"
  by (simp add: wb_handler_def)

lemma imf_missing:
  "httpMethod ev = ''GET'' \<Longrightarrow>
   falsy (param ev ''indicator'') \<or> falsy (param ev ''country'')
     \<or> falsy (param ev ''startYear'') \<or> falsy (param ev ''endYear'')
   \<Longrightarrow> imf_handler fetch ev = (missing_parameters, [])"
  by (simp add: imf_handler_def)

lemma resolve_pending: "resolve r pending = \<lparr>settled = Some r, requests = [], destroyed = False, incoming = None\<rparr>"
  by (simp add: resolve_def)

text \<open>
  Claim C7. A request whose method is OPTIONS gets status 200 with the empty body from
  both handlers, whatever its query parameters are, and no request goes upstream; no
  later callback changes that.
\<close>

theorem preflight_no_validation:
  assumes "httpMethod ev = ''OPTIONS''"
  shows "imf_handler fetch ev = (\<lparr>statusCode = 200, headers = cors_headers, body = Literal []\<rparr>, [])
       \<and> settled (run rt ev es) = Some \<lparr>statusCode = 200, headers = cors_headers, body = Literal []\<rparr>
       \<and> requests (run rt ev es) = []"
proof -
  have "wb_handler rt ev = resolve preflight_ok pending"
    using assms by (rule wb_preflight)
  then have "run rt ev es = resolve preflight_ok pending"
    by (simp add: run_without_request resolve_pending)
  moreover have "imf_handler fetch ev = (preflight_ok, [])"
    using assms by (simp add: imf_handler_def)
  ultimately show ?thesis by (simp add: resolve_pending)
qed

theorem preflight_no_validation_witness:
  "httpMethod \<lparr>httpMethod = ''OPTIONS'', queryStringParameters = None\<rparr> = ''OPTIONS''
   \<and> imf_handler (\<lambda>q. Rejected ''unreachable'') \<lparr>httpMethod = ''OPTIONS'', queryStringParameters = None\<rparr>
       = (\<lparr>statusCode = 200, headers = cors_headers, body = Literal [] :: rat body\<rparr>, [])
   \<and> settled (run (sample_runtime [] Null) \<lparr>httpMethod = ''OPTIONS'', queryStringParameters = None\<rparr> [Timeout])
       = Some \<lparr>statusCode = 200, headers = cors_headers, body = Literal []\<rparr>
   \<and> requests (run (sample_runtime [] Null) \<lparr>httpMethod = ''OPTIONS'', queryStringParameters = None\<rparr> [Timeout]) = []"
  using preflight_no_validation [of "\<lparr>httpMethod = ''OPTIONS'', queryStringParameters = None\<rparr>"
          "\<lambda>q. Rejected ''unreachable''" "sample_runtime [] Null" "[Timeout]"]
  by simp

text \<open>
  Claim C8. A request whose method is neither GET nor OPTIONS gets status 405 with the body
  \<^verbatim>\<open>{"error": "Method not allowed"}\<close> from both handlers, and no request goes upstream.
\<close>

theorem other_methods_rejected:
  assumes "httpMethod ev \<noteq> ''GET''" and "httpMethod ev \<noteq> ''OPTIONS''"
  shows "imf_handler fetch ev
           = (\<lparr>statusCode = 405, headers = cors_headers,
               body = JSON_stringify (Obj [(''error'', Str ''Method not allowed'')])\<rparr>, [])
       \<and> settled (run rt ev es)
           = Some \<lparr>statusCode = 405, headers = cors_headers,
                   body = JSON_stringify (Obj [(''error'', Str ''Method not allowed'')])\<rparr>
       \<and> requests (run rt ev es) = []"
proof -
  have "wb_handler rt ev = resolve method_not_allowed pending"
    using assms by (simp add: wb_other_method)
  then have "run rt ev es = resolve method_not_allowed pending"
    by (simp add: run_without_request resolve_pending)
  moreover have "imf_handler fetch ev = (method_not_allowed, [])"
    using assms by (simp add: imf_handler_def)
  ultimately show ?thesis by (simp add: resolve_pending)
qed

theorem other_methods_rejected_witness:
  "httpMethod (sample_event\<lparr>httpMethod := ''POST''\<rparr>) \<noteq> ''GET''
   \<and> httpMethod (sample_event\<lparr>httpMethod := ''POST''\<rparr>) \<noteq> ''OPTIONS''
   \<and> imf_handler (\<lambda>q. Rejected ''unreachable'') (sample_event\<lparr>httpMethod := ''POST''\<rparr>)
       = (\<lparr>statusCode = 405, headers = cors_headers,
           body = JSON_stringify (Obj [(''error'', Str ''Method not allowed'')]) :: rat body\<rparr>, [])
   \<and> settled (run (sample_runtime [] Null) (sample_event\<lparr>httpMethod := ''POST''\<rparr>) [Timeout])
       = Some \<lparr>statusCode = 405, headers = cors_headers,
               body = JSON_stringify (Obj [(''error'', Str ''Method not allowed'')])\<rparr>
   \<and> requests (run (sample_runtime [] Null) (sample_event\<lparr>httpMethod := ''POST''\<rparr>) [Timeout]) = []"
  using other_methods_rejected [of "sample_event\<lparr>httpMethod := ''POST''\<rparr>"
          "\<lambda>q. Rejected ''unreachable''" "sample_runtime [] Null" "[Timeout]"]
  by simp

lemma falsy_iff: "falsy x \<longleftrightarrow> x = None \<or> x = Some []"
  by (simp add: falsy_def split: option.splits)

text \<open>
  Claim C3. A GET request in which one of \<^verbatim>\<open>indicator\<close>, \<^verbatim>\<open>country\<close>,
  \<^verbatim>\<open>startYear\<close>, \<^verbatim>\<open>endYear\<close> is absent or empty gets status 400 with the
  body \<^verbatim>\<open>{"error": "Missing required parameters: indicator, country, startYear, endYear"}\<close>
  from both handlers, whichever parameter it is, and no request goes upstream.
\<close>

theorem missing_parameter_rejected:
  assumes "httpMethod ev = ''GET''"
    and "k \<in> {''indicator'', ''country'', ''startYear'', ''endYear''}"
    and "param ev k = None \<or> param ev k = Some []"
  shows "imf_handler fetch ev
           = (\<lparr>statusCode = 400, headers = cors_headers,
               body = JSON_stringify (Obj [(''error'',
                 Str ''Missing required parameters: indicator, country, startYear, endYear'')])\<rparr>,
              [])
       \<and> settled (run rt ev es)
           = Some \<lparr>statusCode = 400, headers = cors_headers,
                   body = JSON_stringify (Obj [(''error'',
                     Str ''Missing required parameters: indicator, country, startYear, endYear'')])\<rparr>
       \<and> requests (run rt ev es) = []"
proof -
  from assms(3) have "falsy (param ev k)"
    by (simp add: falsy_iff)
  with assms(2) have missing: "falsy (param ev ''indicator'') \<or> falsy (param ev ''country'')
      \<or> falsy (param ev ''startYear'') \<or> falsy (param ev ''endYear'')"
    by auto
  have "wb_handler rt ev = resolve missing_parameters pending"
    using assms(1) missing by (rule wb_missing)
  then have "run rt ev es = resolve missing_parameters pending"
    by (simp add: run_without_request resolve_pending)
  moreover have "imf_handler fetch ev = (missing_parameters, [])"
    using assms(1) missing by (rule imf_missing)
  ultimately show ?thesis by (simp add: resolve_pending)
qed

theorem missing_parameter_rejected_witness:
  "httpMethod (sample_event\<lparr>queryStringParameters :=
       Some [(''indicator'', ''LUR''), (''country'', ''KR''), (''startYear'', []) ]\<rparr>) = ''GET''
   \<and> ''endYear'' \<in> {''indicator'', ''country'', ''startYear'', ''endYear''}
   \<and> param (sample_event\<lparr>queryStringParameters :=
       Some [(''indicator'', ''LUR''), (''country'', ''KR''), (''startYear'', [])]\<rparr>) ''endYear'' = None
   \<and> imf_handler (\<lambda>q. Rejected ''unreachable'') (sample_event\<lparr>queryStringParameters :=
       Some [(''indicator'', ''LUR''), (''country'', ''KR''), (''startYear'', [])]\<rparr>)
       = (\<lparr>statusCode = 400, headers = cors_headers,
           body = JSON_stringify (Obj [(''error'',
             Str ''Missing required parameters: indicator, country, startYear, endYear'')]) :: rat body\<rparr>,
          [])
   \<and> settled (run (sample_runtime [] Null) (sample_event\<lparr>queryStringParameters :=
       Some [(''indicator'', ''LUR''), (''country'', ''KR''), (''startYear'', [])]\<rparr>) [Timeout])
       = Some \<lparr>statusCode = 400, headers = cors_headers,
               body = JSON_stringify (Obj [(''error'',
                 Str ''Missing required parameters: indicator, country, startYear, endYear'')])\<rparr>
   \<and> requests (run (sample_runtime [] Null) (sample_event\<lparr>queryStringParameters :=
       Some [(''indicator'', ''LUR''), (''country'', ''KR''), (''startYear'', [])]\<rparr>) [Timeout]) = []"
  using missing_parameter_rejected [of "sample_event\<lparr>queryStringParameters :=
       Some [(''indicator'', ''LUR''), (''country'', ''KR''), (''startYear'', [])]\<rparr>" "''endYear''"
       "\<lambda>q. Rejected ''unreachable''" "sample_runtime [] Null" "[Timeout]"]
  by (simp add: sample_event_def param_def)

text \<open>
  Claim C10. A GET request with no \<^verbatim>\<open>queryStringParameters\<close> object at all is answered
  like one with an empty parameter set: both handlers give the 400 response for missing
  parameters, and neither throws.
\<close>

theorem absent_parameter_object:
  assumes "httpMethod ev = ''GET''" and "queryStringParameters ev = None"
  shows "imf_handler fetch ev
           = (\<lparr>statusCode = 400, headers = cors_headers,
               body = JSON_stringify (Obj [(''error'',
                 Str ''Missing required parameters: indicator, country, startYear, endYear'')])\<rparr>,
              [])
       \<and> settled (run rt ev es)
           = Some \<lparr>statusCode = 400, headers = cors_headers,
                   body = JSON_stringify (Obj [(''error'',
                     Str ''Missing required parameters: indicator, country, startYear, endYear'')])\<rparr>
       \<and> requests (run rt ev es) = []"
proof -
  from assms(2) have "param ev ''indicator'' = None"
    by (simp add: param_def)
  then have missing: "falsy (param ev ''indicator'') \<or> falsy (param ev ''country'')
      \<or> falsy (param ev ''startYear'') \<or> falsy (param ev ''endYear'')"
    by (simp add: falsy_iff)
  have "wb_handler rt ev = resolve missing_parameters pending"
    using assms(1) missing by (rule wb_missing)
  then have "run rt ev es = resolve missing_parameters pending"
    by (simp add: run_without_request resolve_pending)
  moreover have "imf_handler fetch ev = (missing_parameters, [])"
    using assms(1) missing by (rule imf_missing)
  ultimately show ?thesis by (simp add: resolve_pending)
qed

theorem absent_parameter_object_witness:
  "httpMethod \<lparr>httpMethod = ''GET'', queryStringParameters = None\<rparr> = ''GET''
   \<and> queryStringParameters \<lparr>httpMethod = ''GET'', queryStringParameters = None\<rparr> = None
   \<and> imf_handler (\<lambda>q. Rejected ''unreachable'') \<lparr>httpMethod = ''GET'', queryStringParameters = None\<rparr>
       = (\<lparr>statusCode = 400, headers = cors_headers,
           body = JSON_stringify (Obj [(''error'',
             Str ''Missing required parameters: indicator, country, startYear, endYear'')]) :: rat body\<rparr>,
          [])
   \<and> settled (run (sample_runtime [] Null) \<lparr>httpMethod = ''GET'', queryStringParameters = None\<rparr> [Timeout])
       = Some \<lparr>statusCode = 400, headers = cors_headers,
               body = JSON_stringify (Obj [(''error'',
                 Str ''Missing required parameters: indicator, country, startYear, endYear'')])\<rparr>
   \<and> requests (run (sample_runtime [] Null) \<lparr>httpMethod = ''GET'', queryStringParameters = None\<rparr> [Timeout]) = []"
  using absent_parameter_object [of "\<lparr>httpMethod = ''GET'', queryStringParameters = None\<rparr>"
       "\<lambda>q. Rejected ''unreachable''" "sample_runtime [] Null" "[Timeout]"]
  by simp

section \<open>Upstream failures\<close>

text \<open>
  Claim C5, as the code has it. When the IMF upstream answers with a status outside
  200..299, the handler answers 500 and the body has the fields \<^verbatim>\<open>error\<close> and
  \<^verbatim>\<open>message\<close>. When the body of the upstream response is read as \<open>errorText\<close>, the
  message holds the upstream status, the status text and the first 200 characters of
  \<open>errorText\<close>, no more; when reading the body rejects, the message is the message of
  that error.
\<close>

theorem imf_upstream_failure:
  assumes "httpMethod ev = ''GET''"
    and "\<not> falsy (param ev ''indicator'')" and "\<not> falsy (param ev ''country'')"
    and "\<not> falsy (param ev ''startYear'')" and "\<not> falsy (param ev ''endYear'')"
    and "fetch (imf_request_of ev) = Resolved r"
    and "status r < 200 \<or> 299 < status r"
  shows "imf_handler fetch ev
           = (\<lparr>statusCode = 500, headers = cors_headers,
               body = JSON_stringify (Obj [(''error'', Str ''Failed to fetch data from IMF API''),
                 (''message'',
                  Str (case text_result r of
                         Inr errorText \<Rightarrow>
                           ''IMF API error: '' @ show_nat (status r) @ '' '' @ statusText r
                             @ ''. '' @ take 200 errorText
                       | Inl msg \<Rightarrow> msg))])\<rparr>,
              [imf_request_of ev])
       \<and> (case text_result r of Inr errorText \<Rightarrow> length (take 200 errorText) | Inl msg \<Rightarrow> 0)
            \<le> 200"
proof -
  from assms(7) have "\<not> ok r"
    by (auto simp add: ok_def)
  with assms(1-6) show ?thesis
    by (simp add: imf_handler_def imf_catch_def split: sum.splits)
qed

lemma show_nat_404: "show_nat 404 = ''404''"
  by code_simp

theorem imf_upstream_failure_witness:
  "httpMethod sample_event = ''GET''
   \<and> \<not> falsy (param sample_event ''indicator'') \<and> \<not> falsy (param sample_event ''country'')
   \<and> \<not> falsy (param sample_event ''startYear'') \<and> \<not> falsy (param sample_event ''endYear'')
   \<and> (status \<lparr>status = 404, statusText = ''Not Found'', text_result = Inr ''no data'',
                 json_result = Inl ''Unexpected token'' :: string + rat jsval\<rparr> < 200
        \<or> 299 < status \<lparr>status = 404, statusText = ''Not Found'', text_result = Inr ''no data'',
                 json_result = Inl ''Unexpected token'' :: string + rat jsval\<rparr>)
   \<and> imf_handler (\<lambda>q. Resolved \<lparr>status = 404, statusText = ''Not Found'',
          text_result = Inr ''no data'', json_result = Inl ''Unexpected token''\<rparr>) sample_event
       = (\<lparr>statusCode = 500, headers = cors_headers,
           body = JSON_stringify (Obj [(''error'', Str ''Failed to fetch data from IMF API''),
             (''message'', Str ''IMF API error: 404 Not Found. no data'')]) :: rat body\<rparr>,
          [\<lparr>url = ''https://www.imf.org/external/datamapper/api/v1/NGDP_RPCH/KR?periods=2020-2022'',
            fetch_headers = [(''Accept'', ''application/json''),
                       (''User-Agent'', ''Mozilla/5.0 (compatible; IMF-Dashboard/1.0)'')]\<rparr>])
   \<and> imf_handler (\<lambda>q. Resolved \<lparr>status = 503, statusText = ''Service Unavailable'',
          text_result = Inl ''terminated'', json_result = Inl ''terminated''\<rparr>) sample_event
       = (\<lparr>statusCode = 500, headers = cors_headers,
           body = JSON_stringify (Obj [(''error'', Str ''Failed to fetch data from IMF API''),
             (''message'', Str ''terminated'')]) :: rat body\<rparr>,
          [\<lparr>url = ''https://www.imf.org/external/datamapper/api/v1/NGDP_RPCH/KR?periods=2020-2022'',
            fetch_headers = [(''Accept'', ''application/json''),
                       (''User-Agent'', ''Mozilla/5.0 (compatible; IMF-Dashboard/1.0)'')]\<rparr>])"
  using imf_upstream_failure [of sample_event
      "\<lambda>q. Resolved \<lparr>status = 404, statusText = ''Not Found'',
          text_result = Inr ''no data'', json_result = Inl ''Unexpected token''\<rparr>"
      "\<lparr>status = 404, statusText = ''Not Found'',
          text_result = Inr ''no data'', json_result = Inl ''Unexpected token'' :: string + rat jsval\<rparr>"]
    imf_upstream_failure [of sample_event
      "\<lambda>q. Resolved \<lparr>status = 503, statusText = ''Service Unavailable'',
          text_result = Inl ''terminated'', json_result = Inl ''terminated''\<rparr>"
      "\<lparr>status = 503, statusText = ''Service Unavailable'',
          text_result = Inl ''terminated'', json_result = Inl ''terminated'' :: string + rat jsval\<rparr>"]
  by (simp add: sample_event_def param_def falsy_def show_nat_404 imf_request_of_def imfApiUrl_def
        str_of_def)

text \<open>
  The claim as the specification words it fails when the upstream answers 503 and reading
  its body rejects: the message of the 500 response is the message of that error, and
  holds neither the upstream status nor any part of an upstream body.
\<close>

theorem imf_upstream_failure_counterexample:
  "\<not> ok \<lparr>status = 503, statusText = ''Service Unavailable'',
            text_result = Inl ''terminated'', json_result = Inl ''terminated'' :: string + rat jsval\<rparr>
   \<and> imf_handler (\<lambda>q. Resolved \<lparr>status = 503, statusText = ''Service Unavailable'',
          text_result = Inl ''terminated'', json_result = Inl ''terminated''\<rparr>) sample_event
       = (\<lparr>statusCode = 500, headers = cors_headers,
           body = JSON_stringify (Obj [(''error'', Str ''Failed to fetch data from IMF API''),
             (''message'', Str ''terminated'')]) :: rat body\<rparr>,
          [imf_request_of sample_event])"
  by (simp add: imf_handler_def imf_catch_def ok_def sample_event_def param_def falsy_def)

section \<open>Invariants of the response envelope\<close>

lemma headers_imf_catch: "headers (imf_catch m) = cors_headers"
  by (simp add: imf_catch_def)

lemma headers_imf_handler: "headers (fst (imf_handler fetch ev)) = cors_headers"
  by (simp add: imf_handler_def Let_def headers_imf_catch split: fetch_result.splits sum.splits)

lemma headers_on_end: "headers (on_end rt sc sm data) = cors_headers"
  by (simp add: on_end_def parse_failure_def split: sum.splits)

lemma settled_resolve:
  "settled (resolve r st) = (case settled st of None \<Rightarrow> Some r | Some x \<Rightarrow> Some x)"
  by (simp add: resolve_def split: option.splits)

lemma requests_resolve: "requests (resolve r st) = requests st"
  by (simp add: resolve_def)

lemma destroyed_resolve: "destroyed (resolve r st) = destroyed st"
  by (simp add: resolve_def)

lemma wb_handler_cases:
  "(\<exists>r. wb_handler rt ev = resolve r pending \<and> headers r = cors_headers)
   \<or> (\<exists>u. wb_handler rt ev = pending\<lparr>requests := [options u]\<rparr>)"
  by (auto simp add: wb_handler_def proxy_error_def split: sum.splits)

lemma requests_deliver: "requests (deliver rt st e) = requests st"
  by (simp add: deliver_def requests_resolve split: upstream_event.splits option.splits)

lemma requests_foldl_deliver: "requests (foldl (deliver rt) st es) = requests st"
  by (induction es arbitrary: st) (simp_all add: requests_deliver)

lemma requests_run: "requests (run rt ev es) = requests (wb_handler rt ev)"
  by (simp add: run_def requests_foldl_deliver)

lemma settled_deliver_kept: "settled st = Some r \<Longrightarrow> settled (deliver rt st e) = Some r"
  by (simp add: deliver_def settled_resolve split: upstream_event.splits option.splits)

lemma settled_foldl_deliver_kept:
  "settled st = Some r \<Longrightarrow> settled (foldl (deliver rt) st es) = Some r"
  by (induction es arbitrary: st) (simp_all add: settled_deliver_kept)

lemma destroyed_deliver_kept: "destroyed st \<Longrightarrow> destroyed (deliver rt st e)"
  by (simp add: deliver_def destroyed_resolve split: upstream_event.splits option.splits)

lemma destroyed_foldl_deliver_kept: "destroyed st \<Longrightarrow> destroyed (foldl (deliver rt) st es)"
  by (induction es arbitrary: st) (simp_all add: destroyed_deliver_kept)

lemma run_append: "run rt ev (es @ e # es') = foldl (deliver rt) (deliver rt (run rt ev es) e) es'"
  by (simp add: run_def)

lemma pending_has_request:
  assumes "settled (run rt ev es) = None"
  shows "\<exists>u. requests (wb_handler rt ev) = [options u]"
proof -
  from wb_handler_cases [of rt ev] show ?thesis
  proof
    assume "\<exists>r. wb_handler rt ev = resolve r pending \<and> headers r = cors_headers"
    then obtain r where r: "wb_handler rt ev = resolve r pending" by blast
    then have "requests (wb_handler rt ev) = []" by (simp add: requests_resolve)
    then have "run rt ev es = wb_handler rt ev" by (rule run_without_request)
    with r assms show ?thesis by (simp add: settled_resolve)
  next
    assume "\<exists>u. wb_handler rt ev = pending\<lparr>requests := [options u]\<rparr>"
    then show ?thesis by auto
  qed
qed

lemma cors_only_resolve: "cors_only st \<Longrightarrow> headers r = cors_headers \<Longrightarrow> cors_only (resolve r st)"
  by (simp add: cors_only_def resolve_def split: option.splits)

lemma cors_only_deliver: "cors_only st \<Longrightarrow> cors_only (deliver rt st e)"
proof (cases e)
  case (ResponseHead sc sm)
  assume "cors_only st"
  with ResponseHead show ?thesis by (simp add: deliver_def cors_only_def)
next
  case (Data chunk)
  assume "cors_only st"
  with Data show ?thesis by (simp add: deliver_def cors_only_def split: option.splits)
next
  case End
  assume "cors_only st"
  with End show ?thesis
    by (simp add: deliver_def cors_only_resolve headers_on_end split: option.splits)
next
  case (RequestError err)
  assume "cors_only st"
  with RequestError show ?thesis
    by (simp add: deliver_def cors_only_resolve request_error_def)
next
  case Timeout
  assume inv: "cors_only st"
  then have "cors_only (st\<lparr>destroyed := True\<rparr>)" by (simp add: cors_only_def)
  with Timeout inv show ?thesis
    by (simp add: deliver_def cors_only_resolve)
qed

lemma cors_only_foldl: "cors_only st \<Longrightarrow> cors_only (foldl (deliver rt) st es)"
  by (induction es arbitrary: st) (simp_all add: cors_only_deliver)

lemma cors_only_handler: "cors_only (wb_handler rt ev)"
  using wb_handler_cases [of rt ev] by (auto simp add: cors_only_def resolve_def)

text \<open>
  Claim C9. Every response of either handler carries the same four headers: the response
  the IMF handler returns, and any response the World Bank handler's promise is settled
  with, after any sequence of callbacks.
\<close>

theorem cors_headers_on_every_response:
  "headers (fst (imf_handler fetch ev)) = cors_headers
   \<and> (settled (run rt ev es) = Some r \<longrightarrow> headers r = cors_headers)
   \<and> cors_headers = [(''Access-Control-Allow-Origin'', ''*''),
                        (''Access-Control-Allow-Headers'', ''Content-Type''),
                        (''Access-Control-Allow-Methods'', ''GET, OPTIONS''),
                        (''Content-Type'', ''application/json'')]"
proof -
  have "cors_only (run rt ev es)"
    unfolding run_def by (rule cors_only_foldl) (rule cors_only_handler)
  then have "settled (run rt ev es) = Some r \<longrightarrow> headers r = cors_headers"
    by (auto simp add: cors_only_def)
  then show ?thesis
    by (simp add: headers_imf_handler cors_headers_def)
qed


theorem cors_headers_on_every_response_witness:
  "settled (run (sample_runtime [] Null) sample_event [Timeout]) = Some request_timeout
   \<and> headers (fst (imf_handler (\<lambda>q. Rejected ''unreachable'') sample_event :: rat response \<times> imf_request list))
        = cors_headers
   \<and> headers (request_timeout :: rat response) = cors_headers"
  using cors_headers_on_every_response
          [of "\<lambda>q. Rejected ''unreachable'' :: rat fetch_result" sample_event
          "sample_runtime [] Null" "[Timeout]" request_timeout]
  by (simp add: run_def wb_handler_def sample_event_def param_def falsy_def sample_runtime_def
        deliver_def resolve_def)

section \<open>Timeout and malformed payloads in the World Bank proxy\<close>

lemma deliver_timeout_pending:
  assumes "settled st = None" and "requests st \<noteq> []"
  shows "settled (deliver rt st Timeout) = Some request_timeout"
    and "destroyed (deliver rt st Timeout)"
  using assms by (simp_all add: deliver_def resolve_def)

lemma deliver_end_pending:
  assumes "settled st = None" and "requests st \<noteq> []" and "incoming st = Some (sc, sm, data)"
  shows "settled (deliver rt st End) = Some (on_end rt sc sm data)"
  using assms by (simp add: deliver_def resolve_def)

lemma transform_malformed:
  assumes "case v of Arr xs \<Rightarrow> length xs < 2 | _ \<Rightarrow> True"
  shows "transform rt v = Inl (Error ''Invalid World Bank API response format'')"
  using assms by (cases v) (simp_all add: transform_def isArray_def elements_def)

text \<open>
  Claim C6. The one outbound request of the World Bank handler carries the timeout 30000.
  When the timeout callback runs while the promise is still pending, the request is
  destroyed, the promise is settled with the 500 response whose message names the 30
  seconds, no further request is sent, and no later callback changes the response.
\<close>

theorem timeout_aborts_once:
  assumes "settled (run rt ev before) = None"
  shows "settled (run rt ev (before @ Timeout # after))
           = Some \<lparr>statusCode = 500, headers = cors_headers,
                   body = JSON_stringify (Obj [(''error'', Str ''World Bank API request timeout''),
                            (''message'', Str ''Request took longer than 30 seconds'')])\<rparr>
       \<and> destroyed (run rt ev (before @ Timeout # after))
       \<and> requests (run rt ev (before @ Timeout # after)) = requests (wb_handler rt ev)
       \<and> map req_timeout (requests (wb_handler rt ev)) = [30000]"
proof -
  from assms obtain u where u: "requests (wb_handler rt ev) = [options u]"
    using pending_has_request by blast
  then have sent: "requests (run rt ev before) \<noteq> []"
    by (simp add: requests_run)
  let ?st = "deliver rt (run rt ev before) Timeout"
  have "settled ?st = Some request_timeout" and "destroyed ?st"
    using assms sent by (rule deliver_timeout_pending)+
  then have "settled (run rt ev (before @ Timeout # after)) = Some request_timeout"
    and "destroyed (run rt ev (before @ Timeout # after))"
    by (simp_all add: run_append settled_foldl_deliver_kept destroyed_foldl_deliver_kept)
  moreover have "requests (run rt ev (before @ Timeout # after)) = requests (wb_handler rt ev)"
    by (rule requests_run)
  moreover have "map req_timeout (requests (wb_handler rt ev)) = [30000]"
    using u by (simp add: options_def)
  ultimately show ?thesis
    by simp
qed

theorem timeout_aborts_once_witness:
  "settled (run (sample_runtime ''[]'' (Arr [])) sample_event [ResponseHead 200 ''OK'', Data ''[]'']) = None
   \<and> settled (run (sample_runtime ''[]'' (Arr [])) sample_event
               ([ResponseHead 200 ''OK'', Data ''[]''] @ Timeout
                  # [RequestError \<lparr>message = ''socket hang up'', code = Some ''ECONNRESET'', stack = []\<rparr>, End]))
       = Some \<lparr>statusCode = 500, headers = cors_headers,
               body = JSON_stringify (Obj [(''error'', Str ''World Bank API request timeout''),
                        (''message'', Str ''Request took longer than 30 seconds'')])\<rparr>
   \<and> map req_timeout (requests (wb_handler (sample_runtime ''[]'' (Arr [])) sample_event)) = [30000]"
  using timeout_aborts_once [of "sample_runtime ''[]'' (Arr [])" sample_event
          "[ResponseHead 200 ''OK'', Data ''[]'']"
          "[RequestError \<lparr>message = ''socket hang up'', code = Some ''ECONNRESET'', stack = []\<rparr>, End]"]
  by (simp add: run_def wb_handler_def sample_event_def param_def falsy_def sample_runtime_def
        deliver_def resolve_def)

text \<open>
  Claim C2. When the World Bank upstream answers 200 and the body decodes to a value that
  is not an array, or to an array shorter than 2, the handler answers 500 with the fields
  \<^verbatim>\<open>error\<close> and \<^verbatim>\<open>message\<close>, the message being
  \<^verbatim>\<open>Invalid World Bank API response format\<close>; it does not answer 200.
\<close>

theorem malformed_payload_rejected:
  assumes "settled (run rt ev before) = None"
    and "incoming (run rt ev before) = Some (200, sm, data)"
    and "json_parse rt data = Inr v"
    and "case v of Arr xs \<Rightarrow> length xs < 2 | _ \<Rightarrow> True"
  shows "settled (run rt ev (before @ End # after))
           = Some \<lparr>statusCode = 500, headers = cors_headers,
                   body = JSON_stringify
                     (Obj [(''error'', Str ''Failed to parse World Bank API response''),
                           (''message'', Str ''Invalid World Bank API response format''),
                           (''rawData'', Str (take 500 data))])\<rparr>"
proof -
  from assms(1) obtain u where "requests (wb_handler rt ev) = [options u]"
    using pending_has_request by blast
  then have sent: "requests (run rt ev before) \<noteq> []"
    by (simp add: requests_run)
  have "transform rt v = Inl (Error ''Invalid World Bank API response format'')"
    using assms(4) by (rule transform_malformed)
  with assms(3) have "on_end rt 200 sm data
      = parse_failure ''Invalid World Bank API response format'' data"
    by (simp add: on_end_def exn_message_def)
  moreover have "settled (deliver rt (run rt ev before) End) = Some (on_end rt 200 sm data)"
    using assms(1) sent assms(2) by (rule deliver_end_pending)
  ultimately show ?thesis
    by (simp add: run_append settled_foldl_deliver_kept parse_failure_def)
qed

theorem malformed_payload_rejected_witness:
  "settled (run (sample_runtime ''[]'' (Arr [])) sample_event [ResponseHead 200 ''OK'', Data ''[]'']) = None
   \<and> incoming (run (sample_runtime ''[]'' (Arr [])) sample_event [ResponseHead 200 ''OK'', Data ''[]''])
       = Some (200, ''OK'', ''[]'')
   \<and> json_parse (sample_runtime ''[]'' (Arr [])) ''[]'' = Inr (Arr [])
   \<and> settled (run (sample_runtime ''[]'' (Arr [])) sample_event
               ([ResponseHead 200 ''OK'', Data ''[]''] @ End # [Timeout]))
       = Some \<lparr>statusCode = 500, headers = cors_headers,
               body = JSON_stringify
                 (Obj [(''error'', Str ''Failed to parse World Bank API response''),
                       (''message'', Str ''Invalid World Bank API response format''),
                       (''rawData'', Str ''[]'')])\<rparr>"
  using malformed_payload_rejected [of "sample_runtime ''[]'' (Arr [])" sample_event
          "[ResponseHead 200 ''OK'', Data ''[]'']" "''OK''" "''[]''" "Arr []" "[Timeout]"]
  by (simp add: run_def wb_handler_def sample_event_def param_def falsy_def sample_runtime_def
        deliver_def resolve_def)

section \<open>The series built from the payload\<close>

lemma get_prop_value_ok:
  "get_prop item ''date'' = Inr d \<Longrightarrow> \<exists>v. get_prop item ''value'' = Inr v"
  by (cases item) (simp_all add: get_prop_def split: option.splits)

lemma record_item_ok:
  assumes "\<not> throws rt item"
  shows "record_item rt vals item
           = Inr (case spec_observation rt item of
                    None \<Rightarrow> vals
                  | Some (k, v) \<Rightarrow> AList.update k v vals)"
proof (cases "get_prop item ''date''")
  case (Inl e)
  with assms show ?thesis by (simp add: throws_def)
next
  case (Inr d)
  then obtain v where v: "get_prop item ''value'' = Inr v"
    using get_prop_value_ok by blast
  show ?thesis
  proof (cases "truthy rt d \<and> v \<noteq> Null")
    case True
    with assms Inr v obtain s where "to_string (num_to_string rt) d = Inr s"
      by (cases "to_string (num_to_string rt) d") (simp_all add: throws_def)
    with True Inr v show ?thesis
      by (simp add: record_item_def spec_observation_def)
  next
    case False
    with Inr v show ?thesis
      by (auto simp add: record_item_def spec_observation_def)
  qed
qed

lemma record_item_throws:
  assumes "throws rt item"
  shows "\<exists>e. record_item rt vals item = Inl e"
proof (cases "get_prop item ''date''")
  case (Inl e)
  then show ?thesis by (simp add: record_item_def)
next
  case (Inr d)
  then obtain v where v: "get_prop item ''value'' = Inr v"
    using get_prop_value_ok by blast
  from assms Inr v obtain e where "to_string (num_to_string rt) d = Inl e"
    and "truthy rt d" and "v \<noteq> Null"
    by (cases "to_string (num_to_string rt) d") (simp_all add: throws_def)
  with Inr v show ?thesis by (simp add: record_item_def)
qed

lemma forEach_ok:
  assumes "\<forall>item\<in>set items. \<not> throws rt item"
  shows "forEach rt vals items
           = Inr (fold (\<lambda>(k, v) vals. AList.update k v vals)
                    (List.map_filter (spec_observation rt) items) vals)"
  using assms
proof (induction items arbitrary: vals)
  case Nil
  then show ?case by (simp add: List.map_filter_simps)
next
  case (Cons item items)
  then have "\<not> throws rt item" by simp
  then have "record_item rt vals item
      = Inr (case spec_observation rt item of None \<Rightarrow> vals
             | Some (k, v) \<Rightarrow> AList.update k v vals)"
    by (rule record_item_ok)
  with Cons show ?case
    by (simp add: List.map_filter_simps split: option.splits)
qed

lemma forEach_throws:
  assumes "\<exists>item\<in>set items. throws rt item"
  shows "\<exists>e. forEach rt vals items = Inl e"
  using assms
proof (induction items arbitrary: vals)
  case Nil
  then show ?case by simp
next
  case (Cons item items)
  show ?case
  proof (cases "record_item rt vals item")
    case (Inl e)
    then show ?thesis by simp
  next
    case (Inr vals')
    then have "\<not> throws rt item"
      using record_item_throws [of rt item vals] by auto
    with Cons.prems have "\<exists>item\<in>set items. throws rt item" by simp
    then have "\<exists>e. forEach rt vals' items = Inl e" by (rule Cons.IH)
    with Inr show ?thesis by simp
  qed
qed

lemma map_of_fold_update:
  "map_of (fold (\<lambda>(k, v) vals. AList.update k v vals) ps vals) = map_of vals ++ map_of (rev ps)"
proof (induction ps arbitrary: vals)
  case Nil
  then show ?case by simp
next
  case (Cons p ps)
  obtain k v where p: "p = (k, v)" by (cases p)
  have "map_of (AList.update k v vals) ++ map_of (rev ps)
      = map_of vals ++ (map_of (rev ps @ [(k, v)]))"
    by (simp add: update_conv' map_add_upd_left fun_eq_iff map_add_def split: option.splits)
  with Cons p show ?case by simp
qed

lemma distinct_fold_update:
  "distinct (map fst vals)
     \<Longrightarrow> distinct (map fst (fold (\<lambda>(k, v) vals. AList.update k v vals) ps vals))"
  by (induction ps arbitrary: vals) (auto simp add: distinct_update)

lemma spec_series_lookup: "map_of (spec_series rt items) = map_of (rev (List.map_filter (spec_observation rt) items))"
  by (simp add: spec_series_def map_of_fold_update)

lemma spec_series_distinct: "distinct (map fst (spec_series rt items))"
  by (simp add: spec_series_def distinct_fold_update)

lemma parseInt_2020: "parseInt ''2020'' = Some 2020" by code_simp
lemma parseInt_2021: "parseInt ''2021'' = Some 2021" by code_simp
lemma parseInt_2022: "parseInt ''2022'' = Some 2022" by code_simp
lemma show_nat_2020: "show_nat 2020 = ''2020''" by code_simp
lemma show_nat_2022: "show_nat 2022 = ''2022''" by code_simp

lemma year_key_2020: "year_key rt (Some 2020) = ''2020''"
  by (simp add: year_key_def show_nat_2020)

lemma year_key_2022: "year_key rt (Some 2022) = ''2022''"
  by (simp add: year_key_def show_nat_2022)

lemma transform_example:
  "transform rt
     (Arr [Obj [(''page'', Num p)],
           Arr [Obj [(''date'', Str ''2020''), (''value'', Num a)],
                Obj [(''date'', Str ''2021''), (''value'', Null)],
                Obj [(''date'', Str ''2022''), (''value'', Num b)]]])
   = Inr (Obj [(''values'', Obj [(''2020'', Num a), (''2022'', Num b)])])"
  by (simp add: transform_def isArray_def elements_def truthy_def record_item_def get_prop_def
        parseInt_2020 parseInt_2022 year_key_2020 year_key_2022)


text \<open>
  Claim C1, as the code has it. Of a decoded payload that is an array of length at least 2:
  when \<^verbatim>\<open>jsonData[1]\<close> is falsy the result is \<^verbatim>\<open>{values: {}}\<close>; when it is an
  array on none of whose items the loop throws, the result is \<^verbatim>\<open>{values}\<close> with the
  entries of \<open>spec_series\<close>: each item with a truthy date and a value other than null sets
  the key of \<^verbatim>\<open>parseInt(date)\<close> to its value, any other item is skipped, keys are never
  duplicated and for a year that occurs twice the later item decides; when it is an array
  with an item on which the loop throws, or a truthy value that is not an array, a
  TypeError is thrown and no \<^verbatim>\<open>{values}\<close> is returned. The payload of the specification's
  example gives the years 2020 and 2022 and drops 2021.
\<close>

theorem transform_series:
  assumes "2 \<le> length xs"
  shows "(\<not> truthy rt (xs ! 1) \<longrightarrow> transform rt (Arr xs) = Inr (Obj [(''values'', Obj [])]))
       \<and> (xs ! 1 = Arr items \<and> (\<forall>item\<in>set items. \<not> throws rt item) \<longrightarrow>
            transform rt (Arr xs) = Inr (Obj [(''values'', Obj (spec_series rt items))])
            \<and> map_of (spec_series rt items)
                = map_of (rev (List.map_filter (spec_observation rt) items))
            \<and> distinct (map fst (spec_series rt items)))
       \<and> (xs ! 1 = Arr items \<and> (\<exists>item\<in>set items. throws rt item) \<longrightarrow>
            (\<exists>e. transform rt (Arr xs) = Inl (TypeError e)))
       \<and> (truthy rt (xs ! 1) \<and> \<not> isArray (xs ! 1) \<longrightarrow>
            transform rt (Arr xs) = Inl (TypeError NotAFunction))
       \<and> transform rt
            (Arr [Obj [(''page'', Num p)],
                  Arr [Obj [(''date'', Str ''2020''), (''value'', Num a)],
                       Obj [(''date'', Str ''2021''), (''value'', Null)],
                       Obj [(''date'', Str ''2022''), (''value'', Num b)]]])
           = Inr (Obj [(''values'', Obj [(''2020'', Num a), (''2022'', Num b)])])"
proof -
  have shape: "\<not> (\<not> isArray (Arr xs) \<or> length (elements (Arr xs)) < 2)"
    using assms by (simp add: isArray_def elements_def)
  have none: "transform rt (Arr xs) = Inr (Obj [(''values'', Obj [])])"
    if "\<not> truthy rt (xs ! 1)"
    using that assms by (simp add: transform_def isArray_def elements_def)
  have ok: "transform rt (Arr xs) = Inr (Obj [(''values'', Obj (spec_series rt items))])"
    if "xs ! 1 = Arr items" and "\<forall>item\<in>set items. \<not> throws rt item"
  proof -
    have "forEach rt [] items = Inr (spec_series rt items)"
      using that(2) by (simp add: forEach_ok spec_series_def)
    with that(1) assms show ?thesis
      by (simp add: transform_def isArray_def elements_def truthy_def)
  qed
  have bad: "\<exists>e. transform rt (Arr xs) = Inl (TypeError e)"
    if "xs ! 1 = Arr items" and "\<exists>item\<in>set items. throws rt item"
  proof -
    from that(2) obtain e where "forEach rt [] items = Inl e"
      using forEach_throws by blast
    with that(1) assms show ?thesis
      by (simp add: transform_def isArray_def elements_def truthy_def)
  qed
  have other: "transform rt (Arr xs) = Inl (TypeError NotAFunction)"
    if "truthy rt (xs ! 1)" and "\<not> isArray (xs ! 1)"
    using that assms by (simp add: transform_def isArray_def elements_def)
  show ?thesis
    using none ok bad other
    by (simp add: spec_series_lookup spec_series_distinct transform_example)
qed

theorem transform_series_witness:
  "2 \<le> length [Obj [(''page'', Num (1 :: rat))],
                 Arr [Obj [(''date'', Str ''2020''), (''value'', Num (51 / 10))],
                      Obj [(''date'', Str ''2021''), (''value'', Null)],
                      Obj [(''date'', Str ''2022''), (''value'', Num 3)]]]
   \<and> \<not> throws (sample_runtime [] Null) (Obj [(''date'', Str ''2020''), (''value'', Num (51 / 10))])
   \<and> \<not> throws (sample_runtime [] Null) (Obj [(''date'', Str ''2021''), (''value'', Null)])
   \<and> \<not> throws (sample_runtime [] Null) (Obj [(''date'', Str ''2022''), (''value'', Num 3)])
   \<and> spec_series (sample_runtime [] Null)
         [Obj [(''date'', Str ''2020''), (''value'', Num (51 / 10))],
          Obj [(''date'', Str ''2021''), (''value'', Null)],
          Obj [(''date'', Str ''2022''), (''value'', Num 3)]]
       = [(''2020'', Num (51 / 10)), (''2022'', Num 3)]
   \<and> transform (sample_runtime [] Null) sample_payload
       = Inr (Obj [(''values'', Obj [(''2020'', Num (51 / 10)), (''2022'', Num 3)])])
   \<and> \<not> truthy (sample_runtime [] Null) ([Obj [], Null] ! 1)
   \<and> transform (sample_runtime [] Null) (Arr [Obj [], Null]) = Inr (Obj [(''values'', Obj [])])
   \<and> throws (sample_runtime [] Null) Null
   \<and> transform (sample_runtime [] Null) (Arr [Obj [], Arr [Null]]) = Inl (TypeError NullProperty)
   \<and> truthy (sample_runtime [] Null) ([Obj [], Str ''none''] ! 1)
   \<and> \<not> isArray ([Obj [], Str ''none'' :: rat jsval] ! 1)
   \<and> transform (sample_runtime [] Null) (Arr [Obj [], Str ''none''])
       = Inl (TypeError NotAFunction)"
  using transform_series [of "[Obj [(''page'', Num (1 :: rat))],
                 Arr [Obj [(''date'', Str ''2020''), (''value'', Num (51 / 10))],
                      Obj [(''date'', Str ''2021''), (''value'', Null)],
                      Obj [(''date'', Str ''2022''), (''value'', Num 3)]]]"
          "sample_runtime [] Null"
          "[Obj [(''date'', Str ''2020''), (''value'', Num (51 / 10))],
            Obj [(''date'', Str ''2021''), (''value'', Null)],
            Obj [(''date'', Str ''2022''), (''value'', Num 3)]]"]
    transform_series [of "[Obj [], Null]" "sample_runtime [] Null"]
    transform_series [of "[Obj [], Arr [Null]]" "sample_runtime [] Null" "[Null]"]
    transform_series [of "[Obj [], Str ''none'']" "sample_runtime [] Null"]
  by (simp add: sample_payload_def throws_def get_prop_def truthy_def spec_series_def
        spec_observation_def List.map_filter_simps parseInt_2020 parseInt_2022
        year_key_2020 year_key_2022 isArray_def transform_def elements_def record_item_def)

text \<open>
  The claim as the specification words it fails on two payloads of length 2. With null in
  place of an observation the loop throws and the handler answers 500, not
  \<^verbatim>\<open>{values}\<close>; and an observation whose date is the empty string, which is not null,
  is skipped.
\<close>

theorem transform_series_counterexample:
  "transform (sample_runtime ''[{},[null]]'' (Arr [Obj [], Arr [Null]])) (Arr [Obj [], Arr [Null]])
     = Inl (TypeError NullProperty)
   \<and> on_end (sample_runtime ''[{},[null]]'' (Arr [Obj [], Arr [Null]])) 200 ''OK'' ''[{},[null]]''
     = \<lparr>statusCode = 500, headers = cors_headers,
        body = JSON_stringify
          (Obj [(''error'', Str ''Failed to parse World Bank API response''),
                (''message'', Str ''Cannot read properties of null''),
                (''rawData'', Str ''[{},[null]]'')])\<rparr>
   \<and> transform (sample_runtime [] Null)
        (Arr [Obj [], Arr [Obj [(''date'', Str []), (''value'', Num 1)]]])
     = Inr (Obj [(''values'', Obj [])])"
  by (simp add: transform_def isArray_def elements_def truthy_def record_item_def get_prop_def
        on_end_def parse_failure_def exn_message_def sample_runtime_def)

section \<open>Code translation\<close>

text \<open>
  Claim C4. \<^verbatim>\<open>KR\<close> is translated to \<^verbatim>\<open>KOR\<close> and \<^verbatim>\<open>ZZ\<close>, which the table
  does not have, stays \<^verbatim>\<open>ZZ\<close>. The name \<^verbatim>\<open>constructor\<close> is not in the table either,
  yet it is not passed through: the lookup finds the member of \<^verbatim>\<open>Object.prototype\<close>, and
  the outbound address holds the string form of that function in place of the code.
\<close>

theorem translate_inherited_name:
  "translate countryMap ''KR'' = Code ''KOR''
   \<and> translate countryMap ''ZZ'' = Code ''ZZ''
   \<and> map_of countryMap ''constructor'' = None
   \<and> translate countryMap ''constructor'' = Member ''constructor''
   \<and> translate countryMap ''constructor'' \<noteq> Code ''constructor''
   \<and> wbApiUrl rt ''LUR'' ''constructor'' ''2020'' ''2022''
       = ''https://api.worldbank.org/v2/country/'' @ proto_string rt ''constructor''
           @ ''/indicator/SL.UEM.TOTL.ZS?format=json&date=2020:2022''"
  by (simp add: translate_def table_get_def countryMap_def indicatorMap_def
        object_prototype_names_def wbApiUrl_def interpolate_def)

end
